theory Spec2Isabelle
  imports Main
begin

section \<open>Portalis npm distribution shim: installer and launcher\<close>

text \<open>
  The package consists of a postinstall script (\<^verbatim>\<open>scripts/install.js\<close>), a Node.js
  entry point (\<^verbatim>\<open>index.js\<close>) and a Windows wrapper script (\<^verbatim>\<open>bin/portalis.cmd\<close>).
  Each script is embedded as a function of the part of the world it reads (the
  process environment, the file system, the release host, the spawned child) that
  returns the world it leaves behind together with the exit code of the process.

  Strings are byte strings: the text written to the console is the UTF-8 encoding of
  the JavaScript string.
\<close>

subsection \<open>Process environment, paths and the file system\<close>

text \<open>
  A path is the list of its segments. \<^verbatim>\<open>path.join\<close> appends segments and resolves
  a \<^verbatim>\<open>..\<close> segment against the segment before it.
\<close>

type_synonym path = "string list"

record env =
  platform :: string
  arch :: string
  version :: string
  dirname :: path

fun path_join :: "path \<Rightarrow> string list \<Rightarrow> path" where
  "path_join p [] = p"
| "path_join p (s # ss) = (if s = ''..'' then path_join (butlast p) ss else path_join (p @ [s]) ss)"

fun join_with :: "string \<Rightarrow> string list \<Rightarrow> string" where
  "join_with sep [] = []"
| "join_with sep [s] = s"
| "join_with sep (s # t # ss) = s @ sep @ join_with sep (t # ss)"

text \<open>
  The text of a path: POSIX paths start at the root, Windows paths with the drive
  segment.
\<close>

definition win_path_str :: "path \<Rightarrow> string" where
  "win_path_str p = join_with [CHR 0x5C] p"

definition path_str :: "env \<Rightarrow> path \<Rightarrow> string" where
  "path_str e p = (if platform e = ''win32'' then win_path_str p else ''/'' @ join_with ''/'' p)"

record fnode =
  content :: string
  mode :: nat

text \<open>
  The world a script acts on: regular files, directories, the two console streams,
  and the log of the URLs \<^verbatim>\<open>https.get\<close> was called with. A URL is optional,
  \<open>None\<close> being JavaScript's \<^verbatim>\<open>undefined\<close> (the \<^verbatim>\<open>location\<close> of a response
  without that header). \<open>newmode\<close> is the mode a newly created file receives
  (\<^verbatim>\<open>0o666\<close> masked by the umask of the process). The process is taken to have
  the permissions it needs: creating a directory succeeds, and opening a file for
  writing fails only for the shape of the file system (a missing directory, a
  directory in place of the file).
\<close>

record world =
  files :: "path \<rightharpoonup> fnode"
  dirs :: "path set"
  stdout :: "string list"
  stderr :: "string list"
  requests :: "string option list"
  newmode :: nat

definition console_log :: "string \<Rightarrow> world \<Rightarrow> world" where
  "console_log s w = w\<lparr>stdout := stdout w @ [s]\<rparr>"

definition console_error :: "string \<Rightarrow> world \<Rightarrow> world" where
  "console_error s w = w\<lparr>stderr := stderr w @ [s]\<rparr>"

definition existsSync :: "path \<Rightarrow> world \<Rightarrow> bool" where
  "existsSync p w = (p \<in> dirs w \<or> p \<in> dom (files w))"

text \<open>\<^verbatim>\<open>fs.mkdirSync(p, { recursive: true })\<close> creates the directory and its ancestors.\<close>

definition mkdirSync :: "path \<Rightarrow> world \<Rightarrow> world" where
  "mkdirSync p w = w\<lparr>dirs := dirs w \<union> set (map (\<lambda>n. take n p) [0..<Suc (length p)])\<rparr>"

text \<open>
  \<^verbatim>\<open>fs.createWriteStream(p)\<close> opens with flag \<^verbatim>\<open>w\<close>: an existing file is truncated
  and keeps its mode, a missing one is created empty. The stream cannot be opened on
  a directory (\<^verbatim>\<open>EISDIR\<close>), below a regular file (\<^verbatim>\<open>ENOTDIR\<close>) or in a directory that
  does not exist (\<^verbatim>\<open>ENOENT\<close>); \<open>Inl\<close> is the code of the error the stream then emits
  (Node's message goes on with a description and the path).
\<close>

definition createWriteStream :: "path \<Rightarrow> world \<Rightarrow> string + world" where
  "createWriteStream p w =
     (if p \<in> dirs w then Inl ''EISDIR''
      else if butlast p \<in> dirs w then
        Inr (w\<lparr>files := (files w)(p \<mapsto>
               (case files w p of None \<Rightarrow> \<lparr>content = [], mode = newmode w\<rparr>
                                | Some f \<Rightarrow> f\<lparr>content := []\<rparr>))\<rparr>)
      else if butlast p \<in> dom (files w) then Inl ''ENOTDIR''
      else Inl ''ENOENT'')"

text \<open>
  \<^verbatim>\<open>response.pipe(file)\<close> followed by the stream's \<^verbatim>\<open>finish\<close>: the body is the
  content of the file the stream was opened on.
\<close>

definition pipe_finish :: "string \<Rightarrow> path \<Rightarrow> world \<Rightarrow> world" where
  "pipe_finish b p w =
     w\<lparr>files := (files w)(p \<mapsto>
          (case files w p of None \<Rightarrow> \<lparr>content = b, mode = newmode w\<rparr>
                           | Some f \<Rightarrow> f\<lparr>content := b\<rparr>))\<rparr>"

definition unlink :: "path \<Rightarrow> world \<Rightarrow> world" where
  "unlink p w = w\<lparr>files := (files w)(p := None)\<rparr>"

text \<open>\<^verbatim>\<open>fs.chmodSync\<close> throws \<^verbatim>\<open>ENOENT\<close> on a missing file.\<close>

definition chmodSync :: "env \<Rightarrow> path \<Rightarrow> nat \<Rightarrow> world \<Rightarrow> string + world" where
  "chmodSync e p m w =
     (case files w p of
        None \<Rightarrow> Inl (''ENOENT: no such file or directory, chmod '' @ [CHR 0x27] @ path_str e p @ [CHR 0x27])
      | Some f \<Rightarrow> Inr (w\<lparr>files := (files w)(p \<mapsto> f\<lparr>mode := m\<rparr>)\<rparr>))"

subsection \<open>Number to text\<close>

text \<open>
  The decimal numeral a template literal puts in place of a non-negative integer.
  \<open>digit_char\<close> is only applied to numbers below ten.
\<close>

definition digit_char :: "nat \<Rightarrow> char" where
  "digit_char n = ''0123456789'' ! n"

fun show_nat :: "nat \<Rightarrow> string" where
  "show_nat n = (if n < 10 then [digit_char n] else show_nat (n div 10) @ [digit_char (n mod 10)])"

declare show_nat.simps [simp del]

subsection \<open>The release host\<close>

text \<open>
  What \<^verbatim>\<open>https.get(url, callback)\<close> leads to: the callback runs on a response, the
  request emits \<^verbatim>\<open>error\<close> (a transport failure), or the call itself throws (a
  string that is not a URL). The answer to a GET may depend on the GETs made before
  it, so the host is a function of the log of the earlier requests and of the URL.
\<close>

record response =
  statusCode :: nat
  location :: "string option"
  body :: string

datatype reply = Reply response | RequestError string | GetThrows string

type_synonym network = "string option list \<Rightarrow> string option \<Rightarrow> reply"

subsection \<open>Uncaught errors\<close>

text \<open>
  An \<^verbatim>\<open>error\<close> event without a listener is thrown by the emitter. When nothing
  catches it, Node reports the error on standard error and the process exits with
  code 1. Of Node's report \<open>uncaught_exception\<close> keeps the line with the message of the
  error.
\<close>

definition uncaught_exception :: "string \<Rightarrow> string list" where
  "uncaught_exception msg = [''Error: '' @ msg]"

subsection \<open>\<^verbatim>\<open>scripts/install.js\<close>\<close>

definition REPO :: string where
  "REPO = ''portalis/portalis''"

definition BINARY_NAME :: string where
  "BINARY_NAME = ''portalis''"

text \<open>
  \<^verbatim>\<open>PLATFORM_MAP\<close>, in the order of its keys. A key always contains a hyphen, so a
  lookup never reaches a property inherited from \<^verbatim>\<open>Object.prototype\<close>, and every
  value is a non-empty string, hence truthy.
\<close>

definition PLATFORM_MAP :: "(string \<times> string) list" where
  "PLATFORM_MAP =
     [(''darwin-x64'', ''macos-x86_64''),
      (''darwin-arm64'', ''macos-aarch64''),
      (''linux-x64'', ''linux-x86_64''),
      (''linux-arm64'', ''linux-aarch64''),
      (''win32-x64'', ''windows-x86_64'')]"

definition emoji_warning :: string where
  "emoji_warning = [CHR 0xE2, CHR 0x9A, CHR 0xA0, CHR 0xEF, CHR 0xB8, CHR 0x8F]"

definition emoji_inbox :: string where
  "emoji_inbox = [CHR 0xF0, CHR 0x9F, CHR 0x93, CHR 0xA5]"

definition emoji_rocket :: string where
  "emoji_rocket = [CHR 0xF0, CHR 0x9F, CHR 0x9A, CHR 0x80]"

definition emoji_check :: string where
  "emoji_check = [CHR 0xE2, CHR 0x9C, CHR 0x85]"

definition emoji_pin :: string where
  "emoji_pin = [CHR 0xF0, CHR 0x9F, CHR 0x93, CHR 0x8D]"

definition emoji_cross :: string where
  "emoji_cross = [CHR 0xE2, CHR 0x9D, CHR 0x8C]"

definition nl :: string where
  "nl = [CHR 0x0A]"

definition platform_key :: "env \<Rightarrow> string" where
  "platform_key e = platform e @ ''-'' @ arch e"

text \<open>The lines \<^verbatim>\<open>getPlatform\<close> prints for a key that is not in the table.\<close>

definition unsupported_report :: "env \<Rightarrow> world \<Rightarrow> world" where
  "unsupported_report e w =
     (let w1 = console_error (emoji_warning @ ''  Unsupported platform: '' @ platform e @ ''-'' @ arch e) w;
          w2 = console_error ''Supported platforms:'' w1;
          w3 = fold (\<lambda>k. console_error (''  - '' @ k)) (map fst PLATFORM_MAP) w2;
          w4 = console_error (nl @ ''You can build from source:'') w3;
          w5 = console_error ''  git clone https://github.com/portalis/portalis.git'' w4;
          w6 = console_error ''  cd portalis'' w5
      in console_error ''  cargo build --release --bin portalis'' w6)"

text \<open>
  \<^verbatim>\<open>getPlatform\<close>: \<open>Inr\<close> the asset suffix, or \<open>Inl\<close> the exit code and the world at
  \<^verbatim>\<open>process.exit\<close>.
\<close>

definition getPlatform :: "env \<Rightarrow> world \<Rightarrow> (int \<times> world) + string" where
  "getPlatform e w =
     (case map_of PLATFORM_MAP (platform_key e) of
        None \<Rightarrow> Inl (1, unsupported_report e w)
      | Some p \<Rightarrow> Inr p)"

definition getBinaryExtension :: "env \<Rightarrow> string" where
  "getBinaryExtension e = (if platform e = ''win32'' then ''.exe'' else '''')"

definition js_str :: "string option \<Rightarrow> string" where
  "js_str u = (case u of None \<Rightarrow> ''undefined'' | Some s \<Rightarrow> s)"

text \<open>
  How a call of \<^verbatim>\<open>downloadBinary\<close> ends: the promise is fulfilled, the promise is
  rejected with an error (its message), or the process dies of an uncaught error (its
  message) before the promise is settled.
\<close>

datatype outcome = Fulfilled | Rejected string | Died string

text \<open>
  The part of \<^verbatim>\<open>downloadBinary\<close> before the response: the log line, the write
  stream on the destination, the GET. The first component is the error of the
  stream, if it could not be opened.
\<close>

definition begin_get :: "string option \<Rightarrow> path \<Rightarrow> world \<Rightarrow> string option \<times> world" where
  "begin_get url dest w =
     (let w1 = console_log (emoji_inbox @ '' Downloading from '' @ js_str url @ ''...'') w
      in case createWriteStream dest w1 of
           Inl err \<Rightarrow> (Some err, w1\<lparr>requests := requests w1 @ [url]\<rparr>)
         | Inr w2 \<Rightarrow> (None, w2\<lparr>requests := requests w2 @ [url]\<rparr>))"

text \<open>
  \<^verbatim>\<open>downloadBinary\<close>. A redirect calls the function again, with no bound on the number
  of calls: \<open>None\<close> is a promise that is never settled in a process that lives on.

  The function attaches no \<^verbatim>\<open>error\<close> listener to the write stream. A stream that
  cannot be opened emits its error as soon as the event loop runs, before the host
  can answer: the process dies. A throwing \<^verbatim>\<open>https.get\<close> is faster still, since it
  rejects the promise within the call, and the handler of the rejection in
  \<^verbatim>\<open>install\<close> ends the process before the event loop runs.
\<close>

partial_function (option) downloadBinary ::
  "network \<Rightarrow> string option \<Rightarrow> path \<Rightarrow> world \<Rightarrow> (outcome \<times> world) option" where
  "downloadBinary net url dest w =
     (case begin_get url dest w of
        (Some err, w1) \<Rightarrow>
          (case net (requests w) url of
             GetThrows msg \<Rightarrow> Some (Rejected msg, w1)
           | RequestError msg \<Rightarrow> Some (Died err, w1)
           | Reply r \<Rightarrow> Some (Died err, w1))
      | (None, w1) \<Rightarrow>
          (case net (requests w) url of
             GetThrows msg \<Rightarrow> Some (Rejected msg, w1)
           | RequestError msg \<Rightarrow> Some (Rejected msg, unlink dest w1)
           | Reply r \<Rightarrow>
               if statusCode r = 302 \<or> statusCode r = 301 then
                 downloadBinary net (location r) dest w1
               else if statusCode r \<noteq> 200 then
                 Some (Rejected (''Failed to download: HTTP '' @ show_nat (statusCode r)), w1)
               else Some (Fulfilled, pipe_finish (body r) dest w1)))"

text \<open>The \<^verbatim>\<open>catch\<close> block of \<^verbatim>\<open>install\<close>, which ends in \<^verbatim>\<open>process.exit(0)\<close>.\<close>

definition install_catch :: "string \<Rightarrow> world \<Rightarrow> int \<times> world" where
  "install_catch msg w =
     (let w1 = console_error (nl @ emoji_cross @ '' Failed to download binary: '' @ msg @ nl) w;
          w2 = console_error ''Fallback options:'' w1;
          w3 = console_error ''1. Install via cargo (requires Rust):'' w2;
          w4 = console_error (''   cargo install portalis'' @ nl) w3;
          w5 = console_error ''2. Build from source:'' w4;
          w6 = console_error ''   git clone https://github.com/portalis/portalis.git'' w5;
          w7 = console_error ''   cd portalis'' w6;
          w8 = console_error (''   cargo build --release --bin portalis'' @ nl) w7;
          w9 = console_error ''3. Report this issue:'' w8;
          w10 = console_error (''   https://github.com/'' @ REPO @ ''/issues'' @ nl) w9
      in (0, w10))"

text \<open>The lines at the end of the \<^verbatim>\<open>try\<close> block.\<close>

definition install_report :: "env \<Rightarrow> path \<Rightarrow> world \<Rightarrow> world" where
  "install_report e binaryPath w =
     (let w1 = console_log (emoji_check @ '' Successfully installed Portalis '' @ version e) w;
          w2 = console_log (emoji_pin @ '' Binary location: '' @ path_str e binaryPath @ nl) w1;
          w3 = console_log ''Get started with:'' w2;
          w4 = console_log ''  portalis --help'' w3
      in console_log ''  portalis convert your_script.py'' w4)"

definition mode_0755 :: nat where
  "mode_0755 = 7 * 64 + 5 * 8 + 5"

text \<open>
  The constants \<^verbatim>\<open>install\<close> computes first. \<open>dirname e\<close> is \<^verbatim>\<open>__dirname\<close>, the
  directory of the script, and \<open>version e\<close> is \<^verbatim>\<open>PACKAGE_VERSION\<close>, read from
  \<^verbatim>\<open>package.json\<close>.
\<close>

definition binDir :: "env \<Rightarrow> path" where
  "binDir e = path_join (dirname e) [''..'', ''bin'']"

definition binaryName :: "env \<Rightarrow> string" where
  "binaryName e = BINARY_NAME @ getBinaryExtension e"

definition binaryPath :: "env \<Rightarrow> path" where
  "binaryPath e = path_join (binDir e) [binaryName e]"

definition downloadUrl :: "env \<Rightarrow> string \<Rightarrow> string" where
  "downloadUrl e plat =
     ''https://github.com/'' @ REPO @ ''/releases/download/v'' @ version e @ ''/''
       @ BINARY_NAME @ ''-'' @ plat @ getBinaryExtension e"

definition install_greeting :: "world \<Rightarrow> world" where
  "install_greeting w = console_log (emoji_rocket @ '' Installing Portalis...'' @ nl) w"

definition make_binDir :: "env \<Rightarrow> world \<Rightarrow> world" where
  "make_binDir e w = (if \<not> existsSync (binDir e) w then mkdirSync (binDir e) w else w)"

text \<open>
  \<^verbatim>\<open>install\<close>, run to the end of the process: the exit code and the world left
  behind, or \<open>None\<close> when the download never settles. A process that runs off the
  end of the script exits with code 0, one that dies of an uncaught error exits with
  code 1 after Node's report. Since creating a directory succeeds, nothing outside
  the \<^verbatim>\<open>try\<close> block throws, and the handler attached to \<^verbatim>\<open>install()\<close> on the last
  lines of the script, which also exits with code 0, never runs.
\<close>

definition install :: "env \<Rightarrow> network \<Rightarrow> world \<Rightarrow> (int \<times> world) option" where
  "install e net w =
     (let w0 = install_greeting w in
      case getPlatform e w0 of
        Inl ex \<Rightarrow> Some ex
      | Inr plat \<Rightarrow>
          (let w1 = make_binDir e w0 in
           case downloadBinary net (Some (downloadUrl e plat)) (binaryPath e) w1 of
             None \<Rightarrow> None
           | Some (Died err, w2) \<Rightarrow>
               Some (1, w2\<lparr>stderr := stderr w2 @ uncaught_exception err\<rparr>)
           | Some (Rejected msg, w2) \<Rightarrow> Some (install_catch msg w2)
           | Some (Fulfilled, w2) \<Rightarrow>
               (case (if platform e \<noteq> ''win32'' then chmodSync e (binaryPath e) mode_0755 w2
                      else Inr w2) of
                  Inl msg \<Rightarrow> Some (install_catch msg w2)
                | Inr w3 \<Rightarrow> Some (0, install_report e (binaryPath e) w3))))"

subsection \<open>\<^verbatim>\<open>index.js\<close>\<close>

datatype stdio = Inherit | Pipe | Ignore

record spawn_call =
  spawn_file :: path
  spawn_args :: "string list"
  spawn_stdio :: stdio
  windowsHide :: bool

text \<open>
  What a \<^verbatim>\<open>ChildProcess\<close> emits: \<^verbatim>\<open>exit\<close> with a code and a signal, of which one
  is \<^verbatim>\<open>null\<close> (the code when a signal ended the child), or \<^verbatim>\<open>error\<close> when the
  process could not be spawned.
\<close>

datatype child_event = ExitEvent "int option" "string option" | ErrorEvent string

text \<open>
  What becomes of a child the operating system starts: it exits with a code, a signal
  ends it, or the system refuses to start it (\<^verbatim>\<open>EACCES\<close> and the like).
\<close>

datatype child_fate = Exited int | Killed string | SpawnError string

fun event_of :: "child_fate \<Rightarrow> child_event" where
  "event_of (Exited n) = ExitEvent (Some n) None"
| "event_of (Killed s) = ExitEvent None (Some s)"
| "event_of (SpawnError m) = ErrorEvent m"

text \<open>
  The operating system: a missing file cannot be spawned (\<^verbatim>\<open>ENOENT\<close>); for a file
  that exists \<open>run\<close> gives the fate of the child, \<open>None\<close> being a child that never
  terminates.
\<close>

definition os_spawn ::
  "env \<Rightarrow> world \<Rightarrow> (path \<Rightarrow> string list \<Rightarrow> child_fate option) \<Rightarrow> spawn_call \<Rightarrow> child_event option" where
  "os_spawn e w run c =
     (case files w (spawn_file c) of
        None \<Rightarrow> Some (ErrorEvent (''spawn '' @ path_str e (spawn_file c) @ '' ENOENT''))
      | Some f \<Rightarrow> map_option event_of (run (spawn_file c) (spawn_args c)))"

text \<open>
  \<^verbatim>\<open>process.exit(code)\<close>: a \<^verbatim>\<open>null\<close> code leaves \<^verbatim>\<open>process.exitCode\<close> unset, and
  the process exits with 0.
\<close>

definition process_exit :: "int option \<Rightarrow> int" where
  "process_exit code = (case code of None \<Rightarrow> 0 | Some n \<Rightarrow> n)"

text \<open>
  The launcher's run: the call of \<^verbatim>\<open>spawn\<close>, the lines written to the launcher's
  own standard error, and the exit code (\<open>None\<close> while the child runs). The script
  listens for \<^verbatim>\<open>exit\<close> only, so an \<^verbatim>\<open>error\<close> event of the child is an uncaught
  error.
\<close>

record launch =
  spawned :: spawn_call
  launch_stderr :: "string list"
  exit_code :: "int option"

definition binPath :: "env \<Rightarrow> path" where
  "binPath e =
     path_join (dirname e) [''bin'', if platform e = ''win32'' then ''portalis.exe'' else ''portalis'']"

definition index_js ::
  "env \<Rightarrow> string list \<Rightarrow> (path \<Rightarrow> string list \<Rightarrow> child_fate option) \<Rightarrow> world \<Rightarrow> launch" where
  "index_js e argv run w =
     (let call = \<lparr>spawn_file = binPath e, spawn_args = drop 2 argv,
                  spawn_stdio = Inherit, windowsHide = True\<rparr>
      in case os_spawn e w run call of
           None \<Rightarrow> \<lparr>spawned = call, launch_stderr = [], exit_code = None\<rparr>
         | Some (ExitEvent code signal) \<Rightarrow>
             \<lparr>spawned = call, launch_stderr = [], exit_code = Some (process_exit code)\<rparr>
         | Some (ErrorEvent msg) \<Rightarrow>
             \<lparr>spawned = call, launch_stderr = uncaught_exception msg, exit_code = Some 1\<rparr>)"

subsection \<open>\<^verbatim>\<open>bin/portalis.cmd\<close>\<close>

text \<open>
  The batch wrapper either leaves with a message and \<^verbatim>\<open>exit /b 1\<close>, or hands over
  to the executable with all its arguments (\<^verbatim>\<open>%*\<close>). \<open>bindir\<close> is \<^verbatim>\<open>%~dp0\<close>, the
  directory of the script.
\<close>

datatype cmd_result = CmdExit "string list" int | CmdRun path "string list"

definition portalis_cmd :: "path \<Rightarrow> string list \<Rightarrow> world \<Rightarrow> cmd_result" where
  "portalis_cmd bindir args w =
     (let exe = bindir @ [''portalis.exe''] in
      if \<not> existsSync exe w then
        CmdExit [''Error: Portalis binary not found at '' @ win_path_str exe,
                 ''Try reinstalling: npm install -g portalis''] 1
      else CmdRun exe args)"

subsection \<open>Redirect chains\<close>

text \<open>
  \<open>redirect_chain net log url hops fin\<close>: after the requests of \<open>log\<close>, the host answers
  the GET of \<open>url\<close> and of each of \<open>hops\<close> but the last with a 301 or 302 whose
  \<^verbatim>\<open>Location\<close> is the next element of \<open>hops\<close>, and the GET of the last one with the
  response \<open>fin\<close>, which is not a redirect. A URL may occur in the chain more than once.
\<close>

fun redirect_chain ::
  "network \<Rightarrow> string option list \<Rightarrow> string \<Rightarrow> string list \<Rightarrow> response \<Rightarrow> bool" where
  "redirect_chain net log url [] fin =
     (net log (Some url) = Reply fin \<and> statusCode fin \<noteq> 301 \<and> statusCode fin \<noteq> 302)"
| "redirect_chain net log url (l # ls) fin =
     (case net log (Some url) of
        Reply r \<Rightarrow> (statusCode r = 301 \<or> statusCode r = 302) \<and> location r = Some l
                    \<and> redirect_chain net (log @ [Some url]) l ls fin
      | RequestError m \<Rightarrow> False
      | GetThrows m \<Rightarrow> False)"

subsection \<open>Concrete inputs\<close>

text \<open>
  A global installation on Linux and one on Windows, before the postinstall script
  has run: the package directory exists, \<^verbatim>\<open>bin\<close> and the binary do not. New files get
  mode \<^verbatim>\<open>0o644\<close>. \<open>installed_world\<close> is the Linux installation after a successful
  postinstall.
\<close>

definition linux_pkg :: path where
  "linux_pkg = [''usr'', ''lib'', ''node_modules'', ''portalis'']"

definition win32_pkg :: path where
  "win32_pkg = [''C:'', ''npm'', ''node_modules'', ''portalis'']"

definition fresh_world :: "path \<Rightarrow> world" where
  "fresh_world pkg =
     \<lparr>files = Map.empty, dirs = set (map (\<lambda>n. take n pkg) [0..<Suc (length pkg)]),
      stdout = [], stderr = [], requests = [], newmode = 6 * 64 + 4 * 8 + 4\<rparr>"

definition linux_install_env :: env where
  "linux_install_env =
     \<lparr>platform = ''linux'', arch = ''x64'', version = ''0.1.0'', dirname = linux_pkg @ [''scripts'']\<rparr>"

definition win32_install_env :: env where
  "win32_install_env =
     \<lparr>platform = ''win32'', arch = ''x64'', version = ''0.1.0'', dirname = win32_pkg @ [''scripts'']\<rparr>"

definition linux_launch_env :: env where
  "linux_launch_env =
     \<lparr>platform = ''linux'', arch = ''x64'', version = ''0.1.0'', dirname = linux_pkg\<rparr>"

definition installed_world :: world where
  "installed_world =
     (mkdirSync (linux_pkg @ [''bin'']) (fresh_world linux_pkg))
       \<lparr>files := [linux_pkg @ [''bin'', ''portalis''] \<mapsto> \<lparr>content = ''ELF'', mode = 493\<rparr>]\<rparr>"

text \<open>
  Release hosts: one that always fails at the transport level, one that answers
  every GET with 404, one that answers every GET with the binary, and one that
  redirects to a second URL, redirects that URL to itself once, and then serves the
  binary there.
\<close>

definition hop_net :: network where
  "hop_net log u =
     (if u = Some ''https://a.example/1'' then
        Reply \<lparr>statusCode = 302, location = Some ''https://b.example/2'', body = []\<rparr>
      else if u = Some ''https://b.example/2'' \<and> Some ''https://b.example/2'' \<notin> set log then
        Reply \<lparr>statusCode = 301, location = Some ''https://b.example/2'', body = []\<rparr>
      else if u = Some ''https://b.example/2'' then
        Reply \<lparr>statusCode = 200, location = None, body = ''ELF''\<rparr>
      else RequestError ''getaddrinfo ENOTFOUND'')"

definition down_net :: network where
  "down_net log u = RequestError ''connect ETIMEDOUT''"

definition notfound_net :: network where
  "notfound_net log u = Reply \<lparr>statusCode = 404, location = None, body = ''Not Found''\<rparr>"

definition ok_net :: network where
  "ok_net log u = Reply \<lparr>statusCode = 200, location = None, body = ''ELF''\<rparr>"

text \<open>
  A child that exits with 0 when it is given exactly the arguments
  \<^verbatim>\<open>convert script.py\<close>, and with 2 otherwise.
\<close>

definition picky_child :: "path \<Rightarrow> string list \<Rightarrow> child_fate option" where
  "picky_child p a = (if a = [''convert'', ''script.py''] then Some (Exited 0) else Some (Exited 2))"

subsection \<open>What a GET changes\<close>

lemma createWriteStream_opens:
  "dest \<notin> dirs w \<Longrightarrow> butlast dest \<in> dirs w \<Longrightarrow>
   createWriteStream dest w =
     Inr (w\<lparr>files := (files w)(dest \<mapsto>
            (case files w dest of None \<Rightarrow> \<lparr>content = [], mode = newmode w\<rparr>
                                | Some f \<Rightarrow> f\<lparr>content := []\<rparr>))\<rparr>)"
  by (simp add: createWriteStream_def)

lemma requests_begin_get: "requests (snd (begin_get u dest w)) = requests w @ [u]"
  by (simp add: begin_get_def createWriteStream_def console_log_def Let_def)

lemma stderr_begin_get: "stderr (snd (begin_get u dest w)) = stderr w"
  by (simp add: begin_get_def createWriteStream_def console_log_def Let_def)

lemma dirs_begin_get: "dirs (snd (begin_get u dest w)) = dirs w"
  by (simp add: begin_get_def createWriteStream_def console_log_def Let_def)

lemma newmode_begin_get: "newmode (snd (begin_get u dest w)) = newmode w"
  by (simp add: begin_get_def createWriteStream_def console_log_def Let_def)

lemma begin_get_opens:
  "dest \<notin> dirs w \<Longrightarrow> butlast dest \<in> dirs w \<Longrightarrow> fst (begin_get u dest w) = None"
  by (simp add: begin_get_def createWriteStream_def console_log_def Let_def)

lemma files_begin_get:
  "dest \<notin> dirs w \<Longrightarrow> butlast dest \<in> dirs w \<Longrightarrow>
   files (snd (begin_get u dest w)) = (files w)(dest \<mapsto>
     (case files w dest of None \<Rightarrow> \<lparr>content = [], mode = newmode w\<rparr> | Some f \<Rightarrow> f\<lparr>content := []\<rparr>))"
  by (simp add: begin_get_def createWriteStream_def console_log_def Let_def split: option.splits)

lemma files_pipe_finish: "\<exists>f. files (pipe_finish b dest w) dest = Some f"
  by (simp add: pipe_finish_def)

lemma files_pipe_finish_eq:
  "files w dest = Some f \<Longrightarrow> files (pipe_finish b dest w) dest = Some (f\<lparr>content := b\<rparr>)"
  by (simp add: pipe_finish_def)

lemma requests_pipe_finish: "requests (pipe_finish b dest w) = requests w"
  by (simp add: pipe_finish_def)

lemma requests_unlink: "requests (unlink dest w) = requests w"
  by (simp add: unlink_def)

subsection \<open>Each branch of \<^verbatim>\<open>downloadBinary\<close>\<close>

lemma downloadBinary_throws:
  "net (requests w) url = GetThrows msg \<Longrightarrow>
   downloadBinary net url dest w = Some (Rejected msg, snd (begin_get url dest w))"
  by (subst downloadBinary.simps) (cases "begin_get url dest w", auto split: option.splits)

lemma downloadBinary_died:
  "fst (begin_get url dest w) = Some err \<Longrightarrow> \<forall>msg. net (requests w) url \<noteq> GetThrows msg \<Longrightarrow>
   downloadBinary net url dest w = Some (Died err, snd (begin_get url dest w))"
  by (subst downloadBinary.simps) (cases "begin_get url dest w", auto split: option.splits reply.splits)

text \<open>
  Without the directory of the destination no file is written and the process dies,
  whatever the host would answer.
\<close>

lemma downloadBinary_no_directory:
  assumes "dest \<notin> dirs w" and "butlast dest \<notin> dirs w" and "butlast dest \<notin> dom (files w)"
    and "\<forall>msg. net (requests w) url \<noteq> GetThrows msg"
  shows "\<exists>w'. downloadBinary net url dest w = Some (Died ''ENOENT'', w') \<and> files w' = files w"
proof -
  have "begin_get url dest w =
          (Some ''ENOENT'',
           (console_log (emoji_inbox @ '' Downloading from '' @ js_str url @ ''...'') w)
             \<lparr>requests := requests w @ [url]\<rparr>)"
    using assms(1,2,3)
    by (simp add: begin_get_def createWriteStream_def console_log_def Let_def)
  then show ?thesis
    using downloadBinary_died [of url dest w "''ENOENT''" net] assms(4)
    by (simp add: console_log_def)
qed

lemma downloadBinary_error:
  "net (requests w) url = RequestError msg \<Longrightarrow> fst (begin_get url dest w) = None \<Longrightarrow>
   downloadBinary net url dest w = Some (Rejected msg, unlink dest (snd (begin_get url dest w)))"
  by (subst downloadBinary.simps) (cases "begin_get url dest w", auto split: option.splits)

lemma downloadBinary_error_removes_file:
  "net (requests w) url = RequestError msg \<Longrightarrow> fst (begin_get url dest w) = None \<Longrightarrow>
   \<exists>w'. downloadBinary net url dest w = Some (Rejected msg, w') \<and> files w' dest = None"
  by (simp add: downloadBinary_error unlink_def)

lemma downloadBinary_redirect:
  "net (requests w) url = Reply r \<Longrightarrow> statusCode r = 301 \<or> statusCode r = 302 \<Longrightarrow>
   fst (begin_get url dest w) = None \<Longrightarrow>
   downloadBinary net url dest w = downloadBinary net (location r) dest (snd (begin_get url dest w))"
  by (subst downloadBinary.simps) (cases "begin_get url dest w", auto split: option.splits)

lemma downloadBinary_ok:
  "net (requests w) url = Reply r \<Longrightarrow> statusCode r = 200 \<Longrightarrow> fst (begin_get url dest w) = None \<Longrightarrow>
   downloadBinary net url dest w =
     Some (Fulfilled, pipe_finish (body r) dest (snd (begin_get url dest w)))"
  by (subst downloadBinary.simps) (cases "begin_get url dest w", auto split: option.splits)

lemma downloadBinary_status:
  "net (requests w) url = Reply r \<Longrightarrow>
   statusCode r \<noteq> 200 \<Longrightarrow> statusCode r \<noteq> 301 \<Longrightarrow> statusCode r \<noteq> 302 \<Longrightarrow>
   fst (begin_get url dest w) = None \<Longrightarrow>
   downloadBinary net url dest w =
     Some (Rejected (''Failed to download: HTTP '' @ show_nat (statusCode r)),
           snd (begin_get url dest w))"
  by (subst downloadBinary.simps) (cases "begin_get url dest w", auto split: option.splits)

text \<open>
  Two facts about every call that ends, by fixpoint induction: a fulfilled promise
  leaves a file at the destination, and the first GET goes to the URL the function
  was called with.
\<close>

lemma downloadBinary_leaves_file:
  "downloadBinary net url dest w = Some y \<Longrightarrow> fst y = Fulfilled \<Longrightarrow> \<exists>f. files (snd y) dest = Some f"
proof (induction rule: downloadBinary.raw_induct [rotated 1, consumes 1])
  case (1 rec net url dest w y)
  note IH = "1.IH" and eq = "1.hyps" and ok = "1.prems"
  obtain se w1 where b: "begin_get url dest w = (se, w1)"
    by (cases "begin_get url dest w")
  show ?case
  proof (cases se)
    case (Some err)
    with eq b ok show ?thesis by (auto split: reply.splits)
  next
    case None
    show ?thesis
    proof (cases "net (requests w) url")
      case (Reply r)
      show ?thesis
      proof (cases "statusCode r = 302 \<or> statusCode r = 301")
        case True
        with eq b None Reply have "rec net (location r) dest w1 = Some y"
          by simp
        from IH [OF this ok] show ?thesis .
      next
        case False
        with eq b None Reply ok show ?thesis
          by (auto simp: files_pipe_finish split: if_splits)
      qed
    next
      case (RequestError msg)
      with eq b None ok show ?thesis by auto
    next
      case (GetThrows msg)
      with eq b None ok show ?thesis by auto
    qed
  qed
qed

lemma downloadBinary_requests:
  "downloadBinary net url dest w = Some y \<Longrightarrow> \<exists>rest. requests (snd y) = requests w @ url # rest"
proof (induction rule: downloadBinary.raw_induct [rotated 1, consumes 1])
  case (1 rec net url dest w y)
  note IH = "1.IH" and eq = "1.hyps"
  obtain se w1 where b: "begin_get url dest w = (se, w1)"
    by (cases "begin_get url dest w")
  have r1: "requests w1 = requests w @ [url]"
    using requests_begin_get [of url dest w] b by simp
  show ?case
  proof (cases se)
    case (Some err)
    with eq b r1 show ?thesis by (auto split: reply.splits)
  next
    case None
    show ?thesis
    proof (cases "net (requests w) url")
      case (Reply r)
      show ?thesis
      proof (cases "statusCode r = 302 \<or> statusCode r = 301")
        case True
        with eq b None Reply have "rec net (location r) dest w1 = Some y"
          by simp
        from IH [OF this] obtain rest
          where "requests (snd y) = requests w1 @ location r # rest" ..
        then show ?thesis by (simp add: r1)
      next
        case False
        with eq b None Reply r1 show ?thesis
          by (auto simp: requests_pipe_finish split: if_splits)
      qed
    next
      case (RequestError msg)
      with eq b None r1 show ?thesis by (auto simp: requests_unlink)
    next
      case (GetThrows msg)
      with eq b None r1 show ?thesis by auto
    qed
  qed
qed

subsection \<open>\<^verbatim>\<open>install\<close> on a supported platform\<close>

lemma install_supported:
  "map_of PLATFORM_MAP (platform_key e) = Some plat \<Longrightarrow>
   install e net w =
     (case downloadBinary net (Some (downloadUrl e plat)) (binaryPath e) (make_binDir e (install_greeting w)) of
        None \<Rightarrow> None
      | Some (Died err, w2) \<Rightarrow> Some (1, w2\<lparr>stderr := stderr w2 @ uncaught_exception err\<rparr>)
      | Some (Rejected msg, w2) \<Rightarrow> Some (install_catch msg w2)
      | Some (Fulfilled, w2) \<Rightarrow>
          (case (if platform e \<noteq> ''win32'' then chmodSync e (binaryPath e) mode_0755 w2 else Inr w2) of
             Inl msg \<Rightarrow> Some (install_catch msg w2)
           | Inr w3 \<Rightarrow> Some (0, install_report e (binaryPath e) w3)))"
  by (simp add: install_def getPlatform_def Let_def)

lemma install_catch_eq:
  "install_catch msg w =
     (0, w\<lparr>stderr := stderr w @
          [nl @ emoji_cross @ '' Failed to download binary: '' @ msg @ nl,
           ''Fallback options:'',
           ''1. Install via cargo (requires Rust):'',
           ''   cargo install portalis'' @ nl,
           ''2. Build from source:'',
           ''   git clone https://github.com/portalis/portalis.git'',
           ''   cd portalis'',
           ''   cargo build --release --bin portalis'' @ nl,
           ''3. Report this issue:'',
           ''   https://github.com/portalis/portalis/issues'' @ nl]\<rparr>)"
  by (simp add: install_catch_def console_error_def REPO_def Let_def)

lemma install_report_eq:
  "install_report e p w =
     w\<lparr>stdout := stdout w @
        [emoji_check @ '' Successfully installed Portalis '' @ version e,
         emoji_pin @ '' Binary location: '' @ path_str e p @ nl,
         ''Get started with:'',
         ''  portalis --help'',
         ''  portalis convert your_script.py'']\<rparr>"
  by (simp add: install_report_def console_log_def Let_def)

lemma requests_prepare: "requests (make_binDir e (install_greeting w)) = requests w"
  by (simp add: make_binDir_def mkdirSync_def install_greeting_def console_log_def)

lemma install_requests:
  assumes "map_of PLATFORM_MAP (platform_key e) = Some plat"
    and "install e net w = Some (c, w')"
  shows "\<exists>rest. requests w' = requests w @ Some (downloadUrl e plat) # rest"
proof -
  let ?d = "downloadBinary net (Some (downloadUrl e plat)) (binaryPath e) (make_binDir e (install_greeting w))"
  from assms obtain r w2 where d: "?d = Some (r, w2)" and r: "requests w' = requests w2"
    by (auto simp: install_supported install_catch_eq install_report_eq chmodSync_def
          split: option.splits sum.splits if_splits prod.splits outcome.splits)
  from downloadBinary_requests [OF d] show ?thesis
    by (simp add: r requests_prepare)
qed

lemma downloadUrl_eq:
  "downloadUrl e sfx =
     ''https://github.com'' @ ''/'' @ ''portalis'' @ ''/'' @ ''portalis'' @ ''/releases/download/v''
       @ version e @ ''/'' @ ''portalis'' @ ''-'' @ sfx @ (if platform e = ''win32'' then ''.exe'' else [])"
  by (simp add: downloadUrl_def REPO_def BINARY_NAME_def getBinaryExtension_def)

lemma binaryPath_linux: "binaryPath linux_install_env = linux_pkg @ [''bin'', ''portalis'']"
  by (simp add: binaryPath_def binDir_def binaryName_def BINARY_NAME_def getBinaryExtension_def
      linux_install_env_def linux_pkg_def)

lemma binaryPath_win32: "binaryPath win32_install_env = win32_pkg @ [''bin'', ''portalis.exe'']"
  by (simp add: binaryPath_def binDir_def binaryName_def BINARY_NAME_def getBinaryExtension_def
      win32_install_env_def win32_pkg_def)

text \<open>
  In the two installations the postinstall script creates \<^verbatim>\<open>bin\<close> and can open the
  write stream.
\<close>

lemma linux_stream_opens:
  "fst (begin_get u (binaryPath linux_install_env)
          (make_binDir linux_install_env (install_greeting (fresh_world linux_pkg)))) = None"
  unfolding binaryPath_linux
  by (rule begin_get_opens)
     (simp_all add: make_binDir_def mkdirSync_def existsSync_def binDir_def
        install_greeting_def console_log_def fresh_world_def linux_install_env_def linux_pkg_def)

lemma linux_stream_file:
  "files (snd (begin_get u (binaryPath linux_install_env)
          (make_binDir linux_install_env (install_greeting (fresh_world linux_pkg)))))
     (linux_pkg @ [''bin'', ''portalis'']) = Some \<lparr>content = [], mode = 420\<rparr>"
  unfolding binaryPath_linux
  by (subst files_begin_get)
     (simp_all add: make_binDir_def mkdirSync_def existsSync_def binDir_def
        install_greeting_def console_log_def fresh_world_def linux_install_env_def linux_pkg_def)

lemma win32_stream_opens:
  "fst (begin_get u (binaryPath win32_install_env)
          (make_binDir win32_install_env (install_greeting (fresh_world win32_pkg)))) = None"
  unfolding binaryPath_win32
  by (rule begin_get_opens)
     (simp_all add: make_binDir_def mkdirSync_def existsSync_def binDir_def
        install_greeting_def console_log_def fresh_world_def win32_install_env_def win32_pkg_def)

lemma install_win32_down:
  "install win32_install_env down_net (fresh_world win32_pkg) =
     Some (install_catch ''connect ETIMEDOUT''
       (unlink (binaryPath win32_install_env)
          (snd (begin_get (Some (downloadUrl win32_install_env ''windows-x86_64''))
             (binaryPath win32_install_env)
             (make_binDir win32_install_env (install_greeting (fresh_world win32_pkg)))))))"
proof -
  have h1: "map_of PLATFORM_MAP (platform_key win32_install_env) = Some ''windows-x86_64''"
    by (simp add: PLATFORM_MAP_def platform_key_def win32_install_env_def)
  show ?thesis
    by (simp add: install_supported [OF h1] downloadBinary_error win32_stream_opens down_net_def)
qed

subsection \<open>The launchers\<close>

lemma binPath_linux: "binPath linux_launch_env = linux_pkg @ [''bin'', ''portalis'']"
  by (simp add: binPath_def linux_launch_env_def linux_pkg_def)

lemma installed_binary:
  "files installed_world (binPath linux_launch_env) = Some \<lparr>content = ''ELF'', mode = 493\<rparr>"
  by (simp add: installed_world_def binPath_linux)

text \<open>
  \<^verbatim>\<open>portalis.cmd\<close> tests for the executable before it runs it: without the file it
  prints the expected path and the advice to reinstall, and leaves with code 1.
\<close>

lemma portalis_cmd_missing_binary:
  "\<not> existsSync (bindir @ [''portalis.exe'']) w \<Longrightarrow>
   portalis_cmd bindir args w =
     CmdExit [''Error: Portalis binary not found at '' @ win_path_str (bindir @ [''portalis.exe'']),
              ''Try reinstalling: npm install -g portalis''] 1"
  by (simp add: portalis_cmd_def)

subsection \<open>Unsupported platform\<close>

text \<open>
  C1. On a platform key that is not in the table (\<^verbatim>\<open>freebsd-x64\<close>), for every package
  version, script directory, release host and initial world, \<^verbatim>\<open>install\<close> prints the
  unsupported-platform line, the five supported keys and the source-build
  instructions to standard error and then ends the process with exit code 1, not
  with a success status.
\<close>

theorem install_unsupported_platform_exits_1:
  "install \<lparr>platform = ''freebsd'', arch = ''x64'', version = v, dirname = d\<rparr> net w =
     Some (1, w\<lparr>stdout := stdout w @ [emoji_rocket @ '' Installing Portalis...'' @ nl],
                stderr := stderr w @
                  [emoji_warning @ ''  Unsupported platform: freebsd-x64'',
                   ''Supported platforms:'',
                   ''  - darwin-x64'',
                   ''  - darwin-arm64'',
                   ''  - linux-x64'',
                   ''  - linux-arm64'',
                   ''  - win32-x64'',
                   nl @ ''You can build from source:'',
                   ''  git clone https://github.com/portalis/portalis.git'',
                   ''  cd portalis'',
                   ''  cargo build --release --bin portalis'']\<rparr>)"
  by (simp add: install_def install_greeting_def getPlatform_def platform_key_def PLATFORM_MAP_def
      unsupported_report_def console_error_def console_log_def Let_def)

subsection \<open>Download failure\<close>

text \<open>
  C2. On a supported platform, whenever \<^verbatim>\<open>downloadBinary\<close> rejects, whatever the
  reason (a transport error, a status other than 200 at the end of the redirects, a
  throwing \<^verbatim>\<open>https.get\<close>), \<^verbatim>\<open>install\<close> prints the message of the error followed by
  the remediation (install with cargo, build from source, the address for issue
  reports) to standard error and ends the process with exit code 0.
\<close>

theorem install_download_failure_exits_0:
  assumes "map_of PLATFORM_MAP (platform_key e) = Some plat"
    and "downloadBinary net (Some (downloadUrl e plat)) (binaryPath e)
           (make_binDir e (install_greeting w)) = Some (Rejected msg, w2)"
  shows "install e net w =
     Some (0, w2\<lparr>stderr := stderr w2 @
          [nl @ emoji_cross @ '' Failed to download binary: '' @ msg @ nl,
           ''Fallback options:'',
           ''1. Install via cargo (requires Rust):'',
           ''   cargo install portalis'' @ nl,
           ''2. Build from source:'',
           ''   git clone https://github.com/portalis/portalis.git'',
           ''   cd portalis'',
           ''   cargo build --release --bin portalis'' @ nl,
           ''3. Report this issue:'',
           ''   https://github.com/portalis/portalis/issues'' @ nl]\<rparr>)"
  using assms by (simp add: install_supported install_catch_eq)

theorem install_download_failure_exits_0_witness:
  "map_of PLATFORM_MAP (platform_key linux_install_env) = Some ''linux-x86_64''
   \<and> (\<exists>w'. install linux_install_env down_net (fresh_world linux_pkg) = Some (0, w')
          \<and> stderr w' ! 0 = nl @ emoji_cross @ '' Failed to download binary: connect ETIMEDOUT'' @ nl
          \<and> length (stderr w') = 10)"
proof -
  have h1: "map_of PLATFORM_MAP (platform_key linux_install_env) = Some ''linux-x86_64''"
    by (simp add: PLATFORM_MAP_def platform_key_def linux_install_env_def)
  let ?w1 = "make_binDir linux_install_env (install_greeting (fresh_world linux_pkg))"
  let ?w2 = "unlink (binaryPath linux_install_env)
               (snd (begin_get (Some (downloadUrl linux_install_env ''linux-x86_64''))
                  (binaryPath linux_install_env) ?w1))"
  have h2: "downloadBinary down_net (Some (downloadUrl linux_install_env ''linux-x86_64''))
              (binaryPath linux_install_env) ?w1 = Some (Rejected ''connect ETIMEDOUT'', ?w2)"
    by (rule downloadBinary_error) (simp_all add: down_net_def linux_stream_opens)
  have s: "stderr ?w2 = []"
    by (simp add: unlink_def stderr_begin_get make_binDir_def mkdirSync_def install_greeting_def
        console_log_def fresh_world_def)
  show ?thesis
    using h1 install_download_failure_exits_0 [OF h1 h2] s by simp
qed

subsection \<open>The download URL\<close>

text \<open>
  C3. On a supported platform key with table entry \<open>sfx\<close>, for every package version,
  the download URL, to which the first GET of every run of \<^verbatim>\<open>install\<close> that ends
  goes, is
  \<^verbatim>\<open>https://github.com/portalis/portalis/releases/download/v<version>/portalis-<sfx><ext>\<close>,
  where \<^verbatim>\<open><ext>\<close> is \<^verbatim>\<open>.exe\<close> on \<^verbatim>\<open>win32\<close> and empty elsewhere.
\<close>

theorem install_download_url:
  assumes "map_of PLATFORM_MAP (platform_key e) = Some sfx"
    and "install e net w = Some (c, w')"
  shows "downloadUrl e sfx =
           ''https://github.com'' @ ''/'' @ ''portalis'' @ ''/'' @ ''portalis''
             @ ''/releases/download/v'' @ version e @ ''/'' @ ''portalis'' @ ''-'' @ sfx
             @ (if platform e = ''win32'' then ''.exe'' else [])
         \<and> (\<exists>rest. requests w' = requests w @ Some (downloadUrl e sfx) # rest)"
  using install_requests [OF assms] by (simp only: downloadUrl_eq simp_thms)

theorem install_download_url_witness:
  "map_of PLATFORM_MAP (platform_key win32_install_env) = Some ''windows-x86_64''
   \<and> (\<exists>w'. install win32_install_env down_net (fresh_world win32_pkg) = Some (0, w')
      \<and> requests w' =
           [Some ''https://github.com/portalis/portalis/releases/download/v0.1.0/portalis-windows-x86_64.exe''])"
proof -
  have h1: "map_of PLATFORM_MAP (platform_key win32_install_env) = Some ''windows-x86_64''"
    by (simp add: PLATFORM_MAP_def platform_key_def win32_install_env_def)
  let ?w = "snd (install_catch ''connect ETIMEDOUT''
       (unlink (binaryPath win32_install_env)
          (snd (begin_get (Some (downloadUrl win32_install_env ''windows-x86_64''))
             (binaryPath win32_install_env)
             (make_binDir win32_install_env (install_greeting (fresh_world win32_pkg)))))))"
  have h2: "install win32_install_env down_net (fresh_world win32_pkg) = Some (0, ?w)"
    by (simp add: install_win32_down install_catch_eq)
  have len: "length (requests ?w) = 1"
    by (simp add: install_catch_eq requests_unlink requests_begin_get requests_prepare fresh_world_def)
  from install_download_url [OF h1 h2] obtain rest where
    "downloadUrl win32_install_env ''windows-x86_64'' =
       ''https://github.com'' @ ''/'' @ ''portalis'' @ ''/'' @ ''portalis''
         @ ''/releases/download/v'' @ version win32_install_env @ ''/'' @ ''portalis'' @ ''-''
         @ ''windows-x86_64'' @ (if platform win32_install_env = ''win32'' then ''.exe'' else [])"
    "requests ?w = requests (fresh_world win32_pkg) @
       Some (downloadUrl win32_install_env ''windows-x86_64'') # rest"
    by blast
  with len have "requests ?w =
      [Some ''https://github.com/portalis/portalis/releases/download/v0.1.0/portalis-windows-x86_64.exe'']"
    by (simp add: fresh_world_def win32_install_env_def)
  with h1 h2 show ?thesis by blast
qed

subsection \<open>Redirects\<close>

text \<open>
  C4. Let the destination be a path whose directory exists and which is not itself a
  directory, so that the write stream can be opened. For a redirect chain of any
  length (each step a 301 or 302 with a \<^verbatim>\<open>Location\<close>, the same URL possibly more than
  once) that ends in a response \<open>fin\<close> which is not a redirect, \<^verbatim>\<open>downloadBinary\<close>
  settles, and it has issued one GET for the first URL and one for each
  \<^verbatim>\<open>Location\<close>, in order. If the status of \<open>fin\<close> is 200 the promise is fulfilled and
  the content of the destination file is the body of \<open>fin\<close>; otherwise the promise is
  rejected with the message \<^verbatim>\<open>Failed to download: HTTP <status>\<close>, which carries the
  status code of \<open>fin\<close>.
\<close>

theorem downloadBinary_follows_redirects:
  assumes "redirect_chain net (requests w) url hops fin"
    and "dest \<notin> dirs w" and "butlast dest \<in> dirs w"
  shows "\<exists>w'. downloadBinary net (Some url) dest w =
                Some (if statusCode fin = 200 then Fulfilled
                      else Rejected (''Failed to download: HTTP '' @ show_nat (statusCode fin)), w')
              \<and> requests w' = requests w @ map Some (url # hops)
              \<and> files w' dest =
                  Some \<lparr>content = (if statusCode fin = 200 then body fin else []),
                        mode = (case files w dest of None \<Rightarrow> newmode w | Some f \<Rightarrow> mode f)\<rparr>"
  using assms
proof (induction hops arbitrary: url w)
  case Nil
  let ?w1 = "snd (begin_get (Some url) dest w)"
  from Nil.prems have n: "net (requests w) (Some url) = Reply fin"
    "statusCode fin \<noteq> 301" "statusCode fin \<noteq> 302"
    by simp_all
  have o: "fst (begin_get (Some url) dest w) = None"
    using Nil.prems by (simp add: begin_get_opens)
  have f1: "files ?w1 dest =
     Some \<lparr>content = [], mode = (case files w dest of None \<Rightarrow> newmode w | Some f \<Rightarrow> mode f)\<rparr>"
    using Nil.prems by (simp add: files_begin_get split: option.splits)
  show ?case
  proof (cases "statusCode fin = 200")
    case True
    have "downloadBinary net (Some url) dest w = Some (Fulfilled, pipe_finish (body fin) dest ?w1)"
      using downloadBinary_ok [of net w "Some url" fin dest] n(1) True o by simp
    then show ?thesis
      using True files_pipe_finish_eq [OF f1, of "body fin"]
      by (simp add: requests_pipe_finish requests_begin_get)
  next
    case False
    have "downloadBinary net (Some url) dest w =
            Some (Rejected (''Failed to download: HTTP '' @ show_nat (statusCode fin)), ?w1)"
      using downloadBinary_status [of net w "Some url" fin dest] n False o by simp
    then show ?thesis
      using False f1 by (simp add: requests_begin_get)
  qed
next
  case (Cons l ls)
  let ?w1 = "snd (begin_get (Some url) dest w)"
  from Cons.prems(1) obtain r where r: "net (requests w) (Some url) = Reply r"
    "statusCode r = 301 \<or> statusCode r = 302" "location r = Some l"
    "redirect_chain net (requests w @ [Some url]) l ls fin"
    by (auto split: reply.splits)
  have o: "fst (begin_get (Some url) dest w) = None"
    using Cons.prems by (simp add: begin_get_opens)
  have f1: "files ?w1 dest =
     Some \<lparr>content = [], mode = (case files w dest of None \<Rightarrow> newmode w | Some f \<Rightarrow> mode f)\<rparr>"
    using Cons.prems by (simp add: files_begin_get split: option.splits)
  have step: "downloadBinary net (Some url) dest w = downloadBinary net (Some l) dest ?w1"
    using downloadBinary_redirect [of net w "Some url" r dest] r(1,2,3) o by simp
  have c1: "redirect_chain net (requests ?w1) l ls fin"
    using r(4) by (simp add: requests_begin_get)
  have d1: "dest \<notin> dirs ?w1" "butlast dest \<in> dirs ?w1"
    using Cons.prems by (simp_all add: dirs_begin_get)
  from Cons.IH [OF c1 d1] obtain w' where
    "downloadBinary net (Some l) dest ?w1 =
       Some (if statusCode fin = 200 then Fulfilled
             else Rejected (''Failed to download: HTTP '' @ show_nat (statusCode fin)), w')"
    "requests w' = requests ?w1 @ map Some (l # ls)"
    "files w' dest =
       Some \<lparr>content = (if statusCode fin = 200 then body fin else []),
             mode = (case files ?w1 dest of None \<Rightarrow> newmode ?w1 | Some f \<Rightarrow> mode f)\<rparr>"
    by blast
  then show ?case
    using step f1 by (simp add: requests_begin_get)
qed

theorem downloadBinary_follows_redirects_witness:
  "redirect_chain hop_net (requests (mkdirSync (linux_pkg @ [''bin'']) (fresh_world linux_pkg)))
     ''https://a.example/1'' [''https://b.example/2'', ''https://b.example/2'']
     \<lparr>statusCode = 200, location = None, body = ''ELF''\<rparr>
   \<and> linux_pkg @ [''bin'', ''portalis''] \<notin> dirs (mkdirSync (linux_pkg @ [''bin'']) (fresh_world linux_pkg))
   \<and> butlast (linux_pkg @ [''bin'', ''portalis''])
        \<in> dirs (mkdirSync (linux_pkg @ [''bin'']) (fresh_world linux_pkg))
   \<and> (\<exists>w'. downloadBinary hop_net (Some ''https://a.example/1'') (linux_pkg @ [''bin'', ''portalis''])
                  (mkdirSync (linux_pkg @ [''bin'']) (fresh_world linux_pkg)) = Some (Fulfilled, w')
          \<and> requests w' = [Some ''https://a.example/1'', Some ''https://b.example/2'', Some ''https://b.example/2'']
          \<and> files w' (linux_pkg @ [''bin'', ''portalis'']) = Some \<lparr>content = ''ELF'', mode = 420\<rparr>)"
proof -
  let ?w = "mkdirSync (linux_pkg @ [''bin'']) (fresh_world linux_pkg)"
  have r: "requests ?w = []" and f: "files ?w = Map.empty" and m: "newmode ?w = 420"
    by (simp_all add: mkdirSync_def fresh_world_def)
  have h1: "redirect_chain hop_net (requests ?w)
     ''https://a.example/1'' [''https://b.example/2'', ''https://b.example/2'']
     \<lparr>statusCode = 200, location = None, body = ''ELF''\<rparr>"
    by (simp add: r hop_net_def)
  have h2: "linux_pkg @ [''bin'', ''portalis''] \<notin> dirs ?w"
    by (simp add: mkdirSync_def fresh_world_def linux_pkg_def)
  have h3: "butlast (linux_pkg @ [''bin'', ''portalis'']) \<in> dirs ?w"
    by (simp add: mkdirSync_def fresh_world_def linux_pkg_def)
  show ?thesis
    using h1 h2 h3 downloadBinary_follows_redirects [OF h1 h2 h3]
    by (simp add: r f m)
qed

subsection \<open>The file a failed download leaves\<close>

text \<open>
  C5. When the release host answers the GET with 404, \<^verbatim>\<open>install\<close> on Linux reports
  the failure and exits with code 0, and an empty file remains at the destination
  path: the write stream created it, and only the handler of the request's
  \<^verbatim>\<open>error\<close> event calls \<^verbatim>\<open>fs.unlink\<close>.
\<close>

theorem install_404_leaves_empty_file:
  "\<exists>w'. install linux_install_env notfound_net (fresh_world linux_pkg) = Some (0, w')
      \<and> files w' (linux_pkg @ [''bin'', ''portalis'']) = Some \<lparr>content = [], mode = 420\<rparr>
      \<and> stderr w' ! 0 = nl @ emoji_cross @ '' Failed to download binary: Failed to download: HTTP 404'' @ nl"
proof -
  have h1: "map_of PLATFORM_MAP (platform_key linux_install_env) = Some ''linux-x86_64''"
    by (simp add: PLATFORM_MAP_def platform_key_def linux_install_env_def)
  have n: "show_nat 404 = ''404''"
    by (simp add: show_nat.simps digit_char_def)
  let ?w1 = "make_binDir linux_install_env (install_greeting (fresh_world linux_pkg))"
  let ?w2 = "snd (begin_get (Some (downloadUrl linux_install_env ''linux-x86_64''))
                (binaryPath linux_install_env) ?w1)"
  have d: "downloadBinary notfound_net (Some (downloadUrl linux_install_env ''linux-x86_64''))
             (binaryPath linux_install_env) ?w1
           = Some (Rejected ''Failed to download: HTTP 404'', ?w2)"
    using downloadBinary_status [of notfound_net ?w1 _
        "\<lparr>statusCode = 404, location = None, body = ''Not Found''\<rparr>" "binaryPath linux_install_env"]
    by (simp add: notfound_net_def n linux_stream_opens)
  have i: "install linux_install_env notfound_net (fresh_world linux_pkg)
           = Some (install_catch ''Failed to download: HTTP 404'' ?w2)"
    by (simp add: install_supported [OF h1] d)
  have f: "files ?w2 (linux_pkg @ [''bin'', ''portalis'']) = Some \<lparr>content = [], mode = 420\<rparr>"
    by (rule linux_stream_file)
  have e: "stderr ?w2 = []"
    by (simp add: stderr_begin_get make_binDir_def mkdirSync_def install_greeting_def
        console_log_def fresh_world_def)
  show ?thesis
    by (simp add: i install_catch_eq f e)
qed

subsection \<open>Permission bits\<close>

text \<open>
  C6. On a supported platform, after a fulfilled download \<^verbatim>\<open>install\<close> ends with
  exit code 0; on a platform other than \<^verbatim>\<open>win32\<close> the files are those the download
  left with the mode of the binary set to \<^verbatim>\<open>0o755\<close> (493, whose owner-execute bit is
  set), and on \<^verbatim>\<open>win32\<close> the files, modes included, are exactly those the download
  left.
\<close>

theorem install_sets_mode_0755:
  assumes "map_of PLATFORM_MAP (platform_key e) = Some plat"
    and "downloadBinary net (Some (downloadUrl e plat)) (binaryPath e)
           (make_binDir e (install_greeting w)) = Some (Fulfilled, w2)"
  shows "\<exists>f w'. files w2 (binaryPath e) = Some f
           \<and> install e net w = Some (0, w')
           \<and> files w' = (if platform e = ''win32'' then files w2
                           else (files w2)(binaryPath e \<mapsto> f\<lparr>mode := mode_0755\<rparr>))
           \<and> mode_0755 = 493 \<and> (mode_0755 div 64) mod 2 = 1"
proof -
  from downloadBinary_leaves_file [OF assms(2)] obtain f where f: "files w2 (binaryPath e) = Some f"
    by auto
  show ?thesis
  proof (cases "platform e = ''win32''")
    case True
    then have "install e net w = Some (0, install_report e (binaryPath e) w2)"
      by (simp add: install_supported [OF assms(1)] assms(2))
    then show ?thesis using True f
      by (simp add: install_report_eq mode_0755_def)
  next
    case False
    then have "install e net w =
        Some (0, install_report e (binaryPath e)
                   (w2\<lparr>files := (files w2)(binaryPath e \<mapsto> f\<lparr>mode := mode_0755\<rparr>)\<rparr>))"
      by (simp add: install_supported [OF assms(1)] assms(2) chmodSync_def f)
    then show ?thesis using False f
      by (simp add: install_report_eq mode_0755_def)
  qed
qed

theorem install_sets_mode_0755_witness:
  "map_of PLATFORM_MAP (platform_key linux_install_env) = Some ''linux-x86_64''
   \<and> (\<exists>w'. install linux_install_env ok_net (fresh_world linux_pkg) = Some (0, w')
          \<and> files w' (linux_pkg @ [''bin'', ''portalis'']) = Some \<lparr>content = ''ELF'', mode = 493\<rparr>)"
proof -
  have h1: "map_of PLATFORM_MAP (platform_key linux_install_env) = Some ''linux-x86_64''"
    by (simp add: PLATFORM_MAP_def platform_key_def linux_install_env_def)
  let ?w1 = "make_binDir linux_install_env (install_greeting (fresh_world linux_pkg))"
  let ?w2 = "pipe_finish ''ELF'' (binaryPath linux_install_env)
               (snd (begin_get (Some (downloadUrl linux_install_env ''linux-x86_64''))
                  (binaryPath linux_install_env) ?w1))"
  have h2: "downloadBinary ok_net (Some (downloadUrl linux_install_env ''linux-x86_64''))
              (binaryPath linux_install_env) ?w1 = Some (Fulfilled, ?w2)"
    using downloadBinary_ok [of ok_net ?w1 _
        "\<lparr>statusCode = 200, location = None, body = ''ELF''\<rparr>" "binaryPath linux_install_env"]
    by (simp add: ok_net_def linux_stream_opens)
  have f: "files ?w2 (binaryPath linux_install_env) = Some \<lparr>content = ''ELF'', mode = 420\<rparr>"
    using files_pipe_finish_eq [OF linux_stream_file, of "''ELF''"]
    by (simp add: binaryPath_linux)
  have p: "platform linux_install_env \<noteq> ''win32''"
    by (simp add: linux_install_env_def)
  from install_sets_mode_0755 [OF h1 h2] obtain f' w' where
    "files ?w2 (binaryPath linux_install_env) = Some f'"
    "install linux_install_env ok_net (fresh_world linux_pkg) = Some (0, w')"
    "files w' = (files ?w2)(binaryPath linux_install_env \<mapsto> f'\<lparr>mode := mode_0755\<rparr>)"
    using p by auto
  with f have "install linux_install_env ok_net (fresh_world linux_pkg) = Some (0, w')
     \<and> files w' (linux_pkg @ [''bin'', ''portalis'']) = Some \<lparr>content = ''ELF'', mode = 493\<rparr>"
    by (auto simp: binaryPath_linux mode_0755_def)
  with h1 show ?thesis by blast
qed

subsection \<open>Launching without a binary\<close>

text \<open>
  C7. When \<^verbatim>\<open>index.js\<close> is started on Linux and no binary has been installed, it
  calls \<^verbatim>\<open>spawn\<close> all the same; the only output is the report of the uncaught
  \<^verbatim>\<open>ENOENT\<close> error of \<^verbatim>\<open>spawn\<close>, without any advice to reinstall, and the exit code
  is 1.
\<close>

theorem index_js_missing_binary_uncaught:
  "index_js linux_launch_env [''/usr/bin/node'', ''/usr/lib/node_modules/portalis/index.js'', ''--help'']
     run (fresh_world linux_pkg) =
   \<lparr>spawned = \<lparr>spawn_file = [''usr'', ''lib'', ''node_modules'', ''portalis'', ''bin'', ''portalis''],
                 spawn_args = [''--help''], spawn_stdio = Inherit, windowsHide = True\<rparr>,
    launch_stderr = [''Error: spawn /usr/lib/node_modules/portalis/bin/portalis ENOENT''],
    exit_code = Some 1\<rparr>"
proof -
  have p: "platform linux_launch_env \<noteq> ''win32''"
    by (simp add: linux_launch_env_def)
  have f: "files (fresh_world linux_pkg) (linux_pkg @ [''bin'', ''portalis'']) = None"
    by (simp add: fresh_world_def)
  show ?thesis
    using p f
    by (simp add: index_js_def os_spawn_def binPath_linux path_str_def uncaught_exception_def)
       (simp add: linux_pkg_def)
qed

subsection \<open>Exit code\<close>

text \<open>
  C8. When the installed binary, started by \<^verbatim>\<open>index.js\<close> on Linux, is ended by
  \<^verbatim>\<open>SIGTERM\<close>, the launcher writes nothing and exits with code 0: its run is the same
  as for a child that exited with code 0, so the launcher's exit code does not tell
  the death of the child from success.
\<close>

theorem index_js_killed_child_exits_0:
  "index_js linux_launch_env [''node'', ''index.js'', ''convert'', ''script.py'']
     (\<lambda>p a. Some (Killed ''SIGTERM'')) installed_world =
   \<lparr>spawned = \<lparr>spawn_file = [''usr'', ''lib'', ''node_modules'', ''portalis'', ''bin'', ''portalis''],
                 spawn_args = [''convert'', ''script.py''], spawn_stdio = Inherit, windowsHide = True\<rparr>,
    launch_stderr = [], exit_code = Some 0\<rparr>
   \<and> index_js linux_launch_env [''node'', ''index.js'', ''convert'', ''script.py'']
         (\<lambda>p a. Some (Killed ''SIGTERM'')) installed_world =
       index_js linux_launch_env [''node'', ''index.js'', ''convert'', ''script.py'']
         (\<lambda>p a. Some (Exited 0)) installed_world"
  by (simp add: index_js_def os_spawn_def process_exit_def installed_binary)
     (simp add: binPath_linux linux_pkg_def)

subsection \<open>Arguments and standard streams\<close>

text \<open>
  C9. Let the binary exist. For every list \<open>args\<close> of command-line arguments after
  the path of Node and the path of the script, \<^verbatim>\<open>index.js\<close> calls \<^verbatim>\<open>spawn\<close> on the
  binary path with exactly \<open>args\<close>, in their order, and with \<^verbatim>\<open>stdio: 'inherit'\<close>, and
  what the launcher does next is decided by the child the operating system runs from
  the binary with exactly these arguments: the launcher exits with the child's exit
  code, with 0 when a signal ends the child, with 1 after an uncaught error when
  the child cannot be started, and not at all while the child runs.
\<close>

theorem index_js_forwards_arguments:
  assumes "files w (binPath e) = Some f"
  shows "spawned (index_js e (node # script # args) run w) =
           \<lparr>spawn_file = binPath e, spawn_args = args, spawn_stdio = Inherit, windowsHide = True\<rparr>
         \<and> launch_stderr (index_js e (node # script # args) run w) =
             (case run (binPath e) args of Some (SpawnError m) \<Rightarrow> uncaught_exception m | _ \<Rightarrow> [])
         \<and> exit_code (index_js e (node # script # args) run w) =
             map_option (\<lambda>fate. case fate of Exited n \<Rightarrow> n | Killed s \<Rightarrow> 0 | SpawnError m \<Rightarrow> 1)
               (run (binPath e) args)"
  using assms
  by (simp add: index_js_def os_spawn_def process_exit_def Let_def
      split: option.splits child_fate.splits)

theorem index_js_forwards_arguments_witness:
  "files installed_world (binPath linux_launch_env) = Some \<lparr>content = ''ELF'', mode = 493\<rparr>
   \<and> spawned (index_js linux_launch_env [''node'', ''index.js'', ''convert'', ''script.py'']
                 picky_child installed_world) =
       \<lparr>spawn_file = [''usr'', ''lib'', ''node_modules'', ''portalis'', ''bin'', ''portalis''],
        spawn_args = [''convert'', ''script.py''], spawn_stdio = Inherit, windowsHide = True\<rparr>
   \<and> exit_code (index_js linux_launch_env [''node'', ''index.js'', ''convert'', ''script.py'']
                   picky_child installed_world) = Some 0
   \<and> exit_code (index_js linux_launch_env [''node'', ''index.js'', ''script.py'', ''convert'']
                   picky_child installed_world) = Some 2"
  using installed_binary
    index_js_forwards_arguments [OF installed_binary, of "''node''" "''index.js''"
      "[''convert'', ''script.py'']" picky_child]
    index_js_forwards_arguments [OF installed_binary, of "''node''" "''index.js''"
      "[''script.py'', ''convert'']" picky_child]
  by (simp add: picky_child_def binPath_linux linux_pkg_def)

subsection \<open>A child ended by a signal\<close>

text \<open>
  C10. Whenever the binary exists and a signal ends the child, the \<^verbatim>\<open>exit\<close> event
  carries the code \<^verbatim>\<open>null\<close>, and \<^verbatim>\<open>index.js\<close> exits with code 0.
\<close>

theorem index_js_signal_exit_0:
  assumes "files w (binPath e) = Some f"
    and "run (binPath e) (drop 2 argv) = Some (Killed sig)"
  shows "os_spawn e w run \<lparr>spawn_file = binPath e, spawn_args = drop 2 argv,
                           spawn_stdio = Inherit, windowsHide = True\<rparr> = Some (ExitEvent None (Some sig))
         \<and> exit_code (index_js e argv run w) = Some 0"
  using assms by (simp add: index_js_def os_spawn_def process_exit_def)

theorem index_js_signal_exit_0_witness:
  "files installed_world (binPath linux_launch_env) = Some \<lparr>content = ''ELF'', mode = 493\<rparr>
   \<and> exit_code (index_js linux_launch_env [''node'', ''index.js'', ''convert'', ''script.py'']
                   (\<lambda>p a. Some (Killed ''SIGKILL'')) installed_world) = Some 0"
proof -
  have h: "files installed_world (binPath linux_launch_env) = Some \<lparr>content = ''ELF'', mode = 493\<rparr>"
    by (simp add: installed_world_def binPath_linux)
  show ?thesis
    using h index_js_signal_exit_0 [OF h, of "\<lambda>p a. Some (Killed ''SIGKILL'')" _ "''SIGKILL''"] by simp
qed

end
